theory Spec2Isabelle
  imports Complex_Main "HOL-Library.Char_ord" "HOL-Library.List_Lexorder"
begin

section \<open>Decoded payloads and errors\<close>

text \<open>
  A decoded JSON payload, as \<^verbatim>\<open>response.json()\<close> returns it. An object is an association
  list read with \<open>map_of\<close>; a key that is absent reads as \<open>None\<close> (JavaScript's
  \<^verbatim>\<open>undefined\<close>). The numeric fields of the API are integers, so a number carries an \<open>int\<close>.
\<close>

datatype json =
    JNull
  | JBool bool
  | JNum int
  | JStr string
  | JArr "json list"
  | JObj "(string \<times> json) list"

text \<open>The type names zod reports in an \<^verbatim>\<open>invalid_type\<close> issue.\<close>

datatype zod_type =
  ZNumber | ZString | ZBoolean | ZNull | ZUndefined | ZArray | ZObject

datatype path_elem = Key string | Index nat

record issue =
  path :: "path_elem list"
  expected :: zod_type
  received :: zod_type

text \<open>
  What the code can throw: the plain \<^verbatim>\<open>Error\<close> of the source with its message, the
  \<^verbatim>\<open>TypeError\<close> of a \<^verbatim>\<open>fetch\<close> that cannot reach the host, the \<^verbatim>\<open>SyntaxError\<close> of
  \<^verbatim>\<open>response.json()\<close> on a body that is not JSON, and the \<^verbatim>\<open>ZodError\<close> of
  \<^verbatim>\<open>schema.parse\<close> with its issues.
\<close>

datatype error =
    Error string
  | TypeError string
  | SyntaxError string
  | ZodError "issue list"

section \<open>Schemas (index.ts, lines 17-49)\<close>

type_synonym 'a parsed = "issue list + 'a"

type_synonym 'a schema = "path_elem list \<Rightarrow> json option \<Rightarrow> 'a parsed"

fun parsed_type :: "json option \<Rightarrow> zod_type" where
  "parsed_type None = ZUndefined"
| "parsed_type (Some JNull) = ZNull"
| "parsed_type (Some (JBool b)) = ZBoolean"
| "parsed_type (Some (JNum n)) = ZNumber"
| "parsed_type (Some (JStr s)) = ZString"
| "parsed_type (Some (JArr xs)) = ZArray"
| "parsed_type (Some (JObj kvs)) = ZObject"

definition invalid_type :: "path_elem list \<Rightarrow> zod_type \<Rightarrow> json option \<Rightarrow> 'a parsed" where
  "invalid_type p t v = Inl [\<lparr>path = p, expected = t, received = parsed_type v\<rparr>]"

text \<open>\<^verbatim>\<open>z.number()\<close> and \<^verbatim>\<open>z.string()\<close>: the value itself, or one issue.\<close>

definition z_number :: "int schema" where
  "z_number p v = (case v of Some (JNum n) \<Rightarrow> Inr n | _ \<Rightarrow> invalid_type p ZNumber v)"

definition z_string :: "string schema" where
  "z_string p v = (case v of Some (JStr s) \<Rightarrow> Inr s | _ \<Rightarrow> invalid_type p ZString v)"

text \<open>\<^verbatim>\<open>.nullable()\<close> accepts \<^verbatim>\<open>null\<close>; an absent value still goes to the inner schema.\<close>

definition nullable :: "'a schema \<Rightarrow> 'a option schema" where
  "nullable s p v =
     (case v of
        Some JNull \<Rightarrow> Inr None
      | _ \<Rightarrow> (case s p v of Inl is \<Rightarrow> Inl is | Inr a \<Rightarrow> Inr (Some a)))"

text \<open>
  zod does not stop at the first invalid field: the issues of all fields and of all
  elements are gathered, and the parse fails when there is at least one.
\<close>

definition ap :: "('a \<Rightarrow> 'b) parsed \<Rightarrow> 'a parsed \<Rightarrow> 'b parsed" where
  "ap pf pa =
     (case pf of
        Inr f \<Rightarrow> (case pa of Inr a \<Rightarrow> Inr (f a) | Inl is \<Rightarrow> Inl is)
      | Inl is \<Rightarrow> (case pa of Inr a \<Rightarrow> Inl is | Inl js \<Rightarrow> Inl (is @ js)))"

fun gather :: "'a parsed list \<Rightarrow> 'a list parsed" where
  "gather [] = Inr []"
| "gather (r # rs) = ap (ap (Inr (#)) r) (gather rs)"

definition z_array :: "'a schema \<Rightarrow> 'a list schema" where
  "z_array s p v =
     (case v of
        Some (JArr xs) \<Rightarrow>
          gather (map (\<lambda>(i, x). s (p @ [Index i]) (Some x)) (enumerate 0 xs))
      | _ \<Rightarrow> invalid_type p ZArray v)"

definition field :: "'a schema \<Rightarrow> path_elem list \<Rightarrow> (string \<times> json) list \<Rightarrow> string \<Rightarrow> 'a parsed" where
  "field s p kvs k = s (p @ [Key k]) (map_of kvs k)"

record workflow =
  w_id :: int
  w_name :: string
  w_path :: string
  w_state :: string
  w_created_at :: string
  w_updated_at :: string
  w_url :: string
  w_html_url :: string
  w_badge_url :: string

record workflow_run =
  r_id :: int
  r_name :: string
  r_status :: string
  r_conclusion :: "string option"
  r_workflow_id :: int
  r_created_at :: string
  r_updated_at :: string
  r_run_started_at :: "string option"
  r_html_url :: string

definition workflowSchema :: "workflow schema" where
  "workflowSchema p v =
     (case v of
        Some (JObj kvs) \<Rightarrow>
          ap (ap (ap (ap (ap (ap (ap (ap (ap (Inr workflow.make)
            (field z_number p kvs ''id''))
            (field z_string p kvs ''name''))
            (field z_string p kvs ''path''))
            (field z_string p kvs ''state''))
            (field z_string p kvs ''created_at''))
            (field z_string p kvs ''updated_at''))
            (field z_string p kvs ''url''))
            (field z_string p kvs ''html_url''))
            (field z_string p kvs ''badge_url'')
      | _ \<Rightarrow> invalid_type p ZObject v)"

definition workflowRunSchema :: "workflow_run schema" where
  "workflowRunSchema p v =
     (case v of
        Some (JObj kvs) \<Rightarrow>
          ap (ap (ap (ap (ap (ap (ap (ap (ap (Inr workflow_run.make)
            (field z_number p kvs ''id''))
            (field z_string p kvs ''name''))
            (field z_string p kvs ''status''))
            (field (nullable z_string) p kvs ''conclusion''))
            (field z_number p kvs ''workflow_id''))
            (field z_string p kvs ''created_at''))
            (field z_string p kvs ''updated_at''))
            (field (nullable z_string) p kvs ''run_started_at''))
            (field z_string p kvs ''html_url'')
      | _ \<Rightarrow> invalid_type p ZObject v)"

record workflowsResponse =
  ws_total_count :: int
  workflows :: "workflow list"

record workflowRunsResponse =
  rs_total_count :: int
  workflow_runs :: "workflow_run list"

definition workflowsResponseSchema :: "workflowsResponse schema" where
  "workflowsResponseSchema p v =
     (case v of
        Some (JObj kvs) \<Rightarrow>
          ap (ap (Inr workflowsResponse.make)
            (field z_number p kvs ''total_count''))
            (field (z_array workflowSchema) p kvs ''workflows'')
      | _ \<Rightarrow> invalid_type p ZObject v)"

definition workflowRunsResponseSchema :: "workflowRunsResponse schema" where
  "workflowRunsResponseSchema p v =
     (case v of
        Some (JObj kvs) \<Rightarrow>
          ap (ap (Inr workflowRunsResponse.make)
            (field z_number p kvs ''total_count''))
            (field (z_array workflowRunSchema) p kvs ''workflow_runs'')
      | _ \<Rightarrow> invalid_type p ZObject v)"

text \<open>\<^verbatim>\<open>schema.parse(data)\<close>: the typed value, or a thrown \<^verbatim>\<open>ZodError\<close>.\<close>

definition parse :: "'a schema \<Rightarrow> json \<Rightarrow> error + 'a" where
  "parse s data = (case s [] (Some data) of Inl is \<Rightarrow> Inl (ZodError is) | Inr a \<Rightarrow> Inr a)"

section \<open>The two tools (index.ts, lines 51-144)\<close>

record http_request =
  url :: string
  headers :: "(string \<times> string) list"

text \<open>
  A response as the tools read it: \<open>body\<close> is what \<^verbatim>\<open>response.json()\<close> decodes, \<open>None\<close>
  when the body is not JSON. \<^verbatim>\<open>response.ok\<close> is true for a status from 200 to 299.
\<close>

record http_response =
  status :: nat
  statusText :: string
  body :: "json option"

definition ok :: "http_response \<Rightarrow> bool" where
  "ok r = (200 \<le> status r \<and> status r \<le> 299)"

text \<open>The network: what \<^verbatim>\<open>fetch\<close> resolves to for a request, or its rejection.\<close>

type_synonym fetch = "http_request \<Rightarrow> error + http_response"

text \<open>A number in a template literal: its decimal digits, with a sign when negative.\<close>

definition digit :: "nat \<Rightarrow> char" where
  "digit n = ''0123456789'' ! n"

fun show_nat :: "nat \<Rightarrow> string" where
  "show_nat n = (if n < 10 then [digit n] else show_nat (n div 10) @ [digit (n mod 10)])"

declare show_nat.simps [simp del]

definition show_int :: "int \<Rightarrow> string" where
  "show_int i = (if i < 0 then CHR ''-'' # show_nat (nat (- i)) else show_nat (nat i))"

text \<open>\<^verbatim>\<open>process.env.GITHUB_TOKEN\<close> in a template literal; an unset variable prints as \<^verbatim>\<open>undefined\<close>.\<close>

definition bearer :: "string option \<Rightarrow> string" where
  "bearer token = ''Bearer '' @ (case token of Some t \<Rightarrow> t | None \<Rightarrow> ''undefined'')"

definition api_headers :: "string option \<Rightarrow> (string \<times> string) list" where
  "api_headers token =
     [(''Authorization'', bearer token),
      (''Accept'', ''application/vnd.github.v3+json''),
      (''User-Agent'', ''GitHub-Workflow-Health-Checker'')]"

definition workflows_url :: "string \<Rightarrow> string \<Rightarrow> string" where
  "workflows_url owner repo =
     ''https://api.github.com/repos/'' @ owner @ ''/'' @ repo @ ''/actions/workflows''"

definition runs_url :: "string \<Rightarrow> string \<Rightarrow> int \<Rightarrow> string" where
  "runs_url owner repo workflowId =
     ''https://api.github.com/repos/'' @ owner @ ''/'' @ repo @ ''/actions/workflows/''
       @ show_int workflowId @ ''/runs?per_page=100''"

text \<open>
  \<^verbatim>\<open>await response.json()\<close>. The tools below take the value of
  \<^verbatim>\<open>process.env.GITHUB_TOKEN\<close> and the network as arguments, and their input as the tuple
  of the fields of the input object. What they write to the console is left out.
\<close>

definition response_json :: "http_response \<Rightarrow> error + json" where
  "response_json r =
     (case body r of None \<Rightarrow> Inl (SyntaxError ''Unexpected token'') | Some data \<Rightarrow> Inr data)"

definition fetchWorkflows :: "string option \<Rightarrow> fetch \<Rightarrow> string \<times> string \<Rightarrow> error + workflow list" where
  "fetchWorkflows token fetch input =
     (case input of (owner, repo) \<Rightarrow>
        (case fetch \<lparr>url = workflows_url owner repo, headers = api_headers token\<rparr> of
           Inl e \<Rightarrow> Inl e
         | Inr response \<Rightarrow>
             if \<not> ok response
             then Inl (Error (''Failed to fetch workflows from GitHub: '' @ statusText response))
             else (case response_json response of
                     Inl e \<Rightarrow> Inl e
                   | Inr data \<Rightarrow>
                       (case parse workflowsResponseSchema data of
                          Inl e \<Rightarrow> Inl e
                        | Inr parsed \<Rightarrow>
                            Inr (map (\<lambda>workflow.
                                   \<lparr>w_id = w_id workflow,
                                    w_name = w_name workflow,
                                    w_path = w_path workflow,
                                    w_state = w_state workflow,
                                    w_created_at = w_created_at workflow,
                                    w_updated_at = w_updated_at workflow,
                                    w_url = w_url workflow,
                                    w_html_url = w_html_url workflow,
                                    w_badge_url = w_badge_url workflow\<rparr>)
                                 (workflows parsed))))))"

definition fetchWorkflowRuns ::
  "string option \<Rightarrow> fetch \<Rightarrow> string \<times> string \<times> int \<Rightarrow> error + workflow_run list" where
  "fetchWorkflowRuns token fetch input =
     (case input of (owner, repo, workflowId) \<Rightarrow>
        (case fetch \<lparr>url = runs_url owner repo workflowId, headers = api_headers token\<rparr> of
           Inl e \<Rightarrow> Inl e
         | Inr response \<Rightarrow>
             if \<not> ok response
             then Inl (Error (''Failed to fetch workflow runs from GitHub: '' @ statusText response))
             else (case response_json response of
                     Inl e \<Rightarrow> Inl e
                   | Inr data \<Rightarrow>
                       (case parse workflowRunsResponseSchema data of
                          Inl e \<Rightarrow> Inl e
                        | Inr parsed \<Rightarrow>
                            Inr (map (\<lambda>run.
                                   \<lparr>r_id = r_id run,
                                    r_name = r_name run,
                                    r_status = r_status run,
                                    r_conclusion = r_conclusion run,
                                    r_workflow_id = r_workflow_id run,
                                    r_created_at = r_created_at run,
                                    r_updated_at = r_updated_at run,
                                    r_run_started_at = r_run_started_at run,
                                    r_html_url = r_html_url run\<rparr>)
                                 (workflow_runs parsed))))))"

section \<open>The flow (index.ts, lines 146-225)\<close>

text \<open>
  The prompt of the flow, with the repository written into it. The template literal
  starts with a line break, and every line of it follows with its indentation.
\<close>

definition health_prompt :: "string \<Rightarrow> string \<Rightarrow> string" where
  \<open>health_prompt owner repo =
     concat (map (\<lambda>l. ''\<newline>'' @ l)
     [
      ''          You are an expert DevOps engineer and reliability analyst specializing in CI/CD pipeline health assessment.'',
      ''          '',
      ''          Your task is to analyze GitHub Actions workflows for the repository "'' @ owner @ ''/'' @ repo @ ''" and provide a comprehensive health report.'',
      '''',
      ''          Using the provided tools:'',
      ''          1. Fetch all workflows for the repository'',
      ''          2. For each workflow, fetch its recent run history (up to 100 runs)'',
      ''          3. Analyze the patterns to assess workflow health'',
      ''          '',
      ''          For each workflow, provide:'',
      ''          - **Workflow Name**'',
      ''          - **Status**: Calculate as a percentage based on predicted future success rate:'',
      ''            * 80-100% = "Healthy" (represented by green circle badge)'',
      ''            * 50-79% = "Need Improvement" (represented by yellow circle badge)'',
      ''            * 0-49% = "At Risk" (represented by red circle badge)'',
      ''          - **File Path**'',
      ''          - **Last Updated**: Date of last workflow update'',
      ''          - **Total Runs**: Total number of workflow runs in the history'',
      ''          - **Successful Runs**: Count of successful completions'',
      ''          - **Failed Runs**: Count of failures'',
      ''          - **Success Rate**: Percentage of successful runs (calculated)'',
      ''          - **Quick Summary**: A 2-3 line AI-generated summary highlighting:'',
      ''            * Recent trends (improving/degrading)'',
      ''            * Key issues if any (consistent failures, timeout patterns, specific branches)'',
      ''            * Recommendations for improvement if needed'',
      ''          '',
      ''          Consider these factors for health prediction:'',
      ''          - Recent success/failure patterns (weight recent runs more heavily)'',
      ''          - Consistency of outcomes'',
      ''          - Time-based trends (getting better or worse)'',
      ''          - Failure clustering (multiple failures in sequence indicate instability)'',
      ''          '',
      ''          Return the analysis in a clear, structured JSON format that can be easily parsed and displayed in a UI.'',
      ''          '',
      ''          Format:'',
      ''          {'',
      ''            "workflows": ['',
      ''              {'',
      ''                "name": "Workflow Name",'',
      ''                "status": "Healthy|Need Improvement|At Risk",'',
      ''                "statusPercentage": 85,'',
      ''                "filePath": ".github/workflows/ci.yml",'',
      ''                "lastUpdated": "2024-01-15T10:30:00Z",'',
      ''                "totalRuns": 150,'',
      ''                "successfulRuns": 145,'',
      ''                "failedRuns": 5,'',
      ''                "successRate": 96.7,'',
      ''                "summary": "Workflow is highly reliable with consistent success over the past 30 days. Recent trend shows improvement in build times. No critical issues detected."'',
      ''              }'',
      ''            ]'',
      ''          }'',
      ''      ''
     ])\<close>

text \<open>
  \<^verbatim>\<open>ai.generateStream\<close> belongs to the generation library and the model behind it, not to
  this repository: it is a parameter of the flow. It receives the prompt, the two tools
  and the sampling temperature, and gives the chunks of its stream and the response: the
  text, or the error the generation is rejected with.
\<close>

type_synonym fetchWorkflows_tool = "string \<times> string \<Rightarrow> error + workflow list"

type_synonym fetchWorkflowRuns_tool = "string \<times> string \<times> int \<Rightarrow> error + workflow_run list"

record generate_options =
  prompt :: string
  tools :: "fetchWorkflows_tool \<times> fetchWorkflowRuns_tool"
  temperature :: rat

record generation =
  stream :: "string list"
  response :: "error + string"

type_synonym generator = "generate_options \<Rightarrow> generation"

text \<open>
  The flow hands every chunk of the stream to \<^verbatim>\<open>streamCallback\<close> (the first component of
  the result: the chunks delivered, in order), then awaits the response and returns its
  text. Nothing is caught: a rejected generation rejects the flow. A generation that fails
  has delivered the chunks of \<open>stream\<close> before its error is thrown.
\<close>

definition workflowHealthFlow ::
  "string option \<Rightarrow> fetch \<Rightarrow> generator \<Rightarrow> string \<times> string \<Rightarrow> string list \<times> (error + string)" where
  "workflowHealthFlow token fetch generateStream input =
     (case input of (owner, repo) \<Rightarrow>
        (let g = generateStream
                   \<lparr>prompt = health_prompt owner repo,
                    tools = (fetchWorkflows token fetch, fetchWorkflowRuns token fetch),
                    temperature = 3 / 10\<rparr>
         in (stream g, (case response g of Inl e \<Rightarrow> Inl e | Inr text \<Rightarrow> Inr text))))"

section \<open>The client's input parser (app component, lines 17-32)\<close>

text \<open>\<^verbatim>\<open>String.prototype.split\<close> with a one-character separator: never an empty array.\<close>

fun split_on :: "char \<Rightarrow> string \<Rightarrow> string list" where
  "split_on sep [] = [[]]"
| "split_on sep (c # cs) =
     (if c = sep then [] # split_on sep cs
      else (case split_on sep cs of
              [] \<Rightarrow> [[c]]
            | x # xs \<Rightarrow> (c # x) # xs))"

text \<open>
  \<^verbatim>\<open>String.prototype.trim\<close>. A \<open>char\<close> is a code unit below 256; the white space
  and line terminators of JavaScript in that range are tab, line feed, vertical tab, form
  feed, carriage return, space and no-break space.
\<close>

definition is_space :: "char \<Rightarrow> bool" where
  "is_space c = (of_char c \<in> {9, 10, 11, 12, 13, 32, 160 :: nat})"

definition trim :: "string \<Rightarrow> string" where
  "trim s = rev (dropWhile is_space (rev (dropWhile is_space s)))"

text \<open>An array element read by destructuring: \<open>None\<close> (\<^verbatim>\<open>undefined\<close>) past the end.\<close>

fun element :: "'a list \<Rightarrow> nat \<Rightarrow> 'a option" where
  "element [] n = None"
| "element (x # xs) 0 = Some x"
| "element (x # xs) (Suc n) = element xs n"

text \<open>\<^verbatim>\<open>!s\<close> for a string that may be \<^verbatim>\<open>undefined\<close>.\<close>

fun falsy :: "string option \<Rightarrow> bool" where
  "falsy None = True"
| "falsy (Some s) = (s = [])"

text \<open>
  The remote function \<^verbatim>\<open>workflowHealthFunction\<close> is a parameter: what the call resolves
  to, or its rejection. The first component of the result lists the calls made. The last
  case of the definition cannot occur: a value that is not falsy is a string.
\<close>

definition mutationFn ::
  "(string \<times> string \<Rightarrow> error + string) \<Rightarrow> string \<Rightarrow> (string \<times> string) list \<times> (error + string)" where
  "mutationFn callable repoInput =
     (let parts = map trim (split_on CHR ''/'' repoInput);
          owner = element parts 0;
          repo = element parts 1
      in if falsy owner \<or> falsy repo
         then ([], Inl (Error ''Please enter a valid repository in format: owner/repo''))
         else (case (owner, repo) of
                 (Some ow, Some re) \<Rightarrow> ([(ow, re)], callable (ow, re))
               | _ \<Rightarrow> ([], Inl (Error ''Please enter a valid repository in format: owner/repo''))))"

section \<open>The vocabulary of the specification\<close>

text \<open>
  The assessment of one workflow, with the fields of the report format the prompt asks
  for (index.ts, lines 192-208). \<open>successRate\<close> is in tenths of a percent.
\<close>

datatype bucket = Healthy | NeedImprovement | AtRisk

record assessment =
  a_name :: string
  a_status :: bucket
  statusPercentage :: nat
  filePath :: string
  lastUpdated :: string
  totalRuns :: nat
  successfulRuns :: nat
  failedRuns :: nat
  successRate :: nat
  summary :: string

text \<open>The thresholds of the prompt (index.ts, lines 170-172).\<close>

definition bucket_of :: "nat \<Rightarrow> bucket" where
  "bucket_of pct = (if 80 \<le> pct then Healthy else if 50 \<le> pct then NeedImprovement else AtRisk)"

fun bucket_text :: "bucket \<Rightarrow> string" where
  "bucket_text Healthy = ''Healthy''"
| "bucket_text NeedImprovement = ''Need Improvement''"
| "bucket_text AtRisk = ''At Risk''"

definition show_tenths :: "nat \<Rightarrow> string" where
  "show_tenths n = show_nat (n div 10) @ ''.'' @ show_nat (n mod 10)"

definition assessment_text :: "assessment \<Rightarrow> string" where
  \<open>assessment_text a =
     ''{"name": "'' @ a_name a @
     ''", "status": "'' @ bucket_text (a_status a) @
     ''", "statusPercentage": '' @ show_nat (statusPercentage a) @
     '', "filePath": "'' @ filePath a @
     ''", "lastUpdated": "'' @ lastUpdated a @
     ''", "totalRuns": '' @ show_nat (totalRuns a) @
     '', "successfulRuns": '' @ show_nat (successfulRuns a) @
     '', "failedRuns": '' @ show_nat (failedRuns a) @
     '', "successRate": '' @ show_tenths (successRate a) @
     '', "summary": "'' @ summary a @ ''"}''\<close>

fun join :: "string \<Rightarrow> string list \<Rightarrow> string" where
  "join sep [] = []"
| "join sep [x] = x"
| "join sep (x # y # ys) = x @ sep @ join sep (y # ys)"

text \<open>A report written in the format of the prompt.\<close>

definition report_text :: "assessment list \<Rightarrow> string" where
  \<open>report_text as = ''{"workflows": ['' @ join '', '' (map assessment_text as) @ '']}''\<close>

definition counts_consistent :: "assessment \<Rightarrow> bool" where
  "counts_consistent a = (successfulRuns a + failedRuns a \<le> totalRuns a)"

text \<open>
  Completed runs are those concluded as success or failure; the most recent ones are the
  ones created last.
\<close>

definition is_success :: "workflow_run \<Rightarrow> bool" where
  "is_success r = (r_conclusion r = Some ''success'')"

definition is_failure :: "workflow_run \<Rightarrow> bool" where
  "is_failure r = (r_conclusion r = Some ''failure'')"

definition completed :: "workflow_run \<Rightarrow> bool" where
  "completed r = (is_success r \<or> is_failure r)"

definition latest_completed :: "nat \<Rightarrow> workflow_run list \<Rightarrow> workflow_run list" where
  "latest_completed n runs = take n (rev (sort_key r_created_at (filter completed runs)))"

definition failure_streak :: "workflow_run list \<Rightarrow> bool" where
  "failure_streak runs =
     (3 \<le> length (filter completed runs) \<and> list_all is_failure (latest_completed 3 runs))"

text \<open>
  A record of the run list as the schema wants it: every field present with its type,
  \<open>conclusion\<close> and \<open>run_started_at\<close> a string or \<^verbatim>\<open>null\<close>. Likewise for a workflow.
\<close>

fun is_number :: "json option \<Rightarrow> bool" where
  "is_number (Some (JNum n)) = True"
| "is_number v = False"

fun is_string :: "json option \<Rightarrow> bool" where
  "is_string (Some (JStr s)) = True"
| "is_string v = False"

fun is_string_or_null :: "json option \<Rightarrow> bool" where
  "is_string_or_null (Some (JStr s)) = True"
| "is_string_or_null (Some JNull) = True"
| "is_string_or_null v = False"

fun well_formed_run :: "json \<Rightarrow> bool" where
  "well_formed_run (JObj kvs) =
     (is_number (map_of kvs ''id'') \<and> is_string (map_of kvs ''name'') \<and>
      is_string (map_of kvs ''status'') \<and> is_string_or_null (map_of kvs ''conclusion'') \<and>
      is_number (map_of kvs ''workflow_id'') \<and> is_string (map_of kvs ''created_at'') \<and>
      is_string (map_of kvs ''updated_at'') \<and> is_string_or_null (map_of kvs ''run_started_at'') \<and>
      is_string (map_of kvs ''html_url''))"
| "well_formed_run v = False"

fun well_formed_workflow :: "json \<Rightarrow> bool" where
  "well_formed_workflow (JObj kvs) =
     (is_number (map_of kvs ''id'') \<and> is_string (map_of kvs ''name'') \<and>
      is_string (map_of kvs ''path'') \<and> is_string (map_of kvs ''state'') \<and>
      is_string (map_of kvs ''created_at'') \<and> is_string (map_of kvs ''updated_at'') \<and>
      is_string (map_of kvs ''url'') \<and> is_string (map_of kvs ''html_url'') \<and>
      is_string (map_of kvs ''badge_url''))"
| "well_formed_workflow v = False"

section \<open>Generators and upstream data of the examples\<close>

text \<open>A generator is given here by what it returns. One whose generation is rejected:\<close>

definition unavailable :: "error \<Rightarrow> generator" where
  "unavailable e opts = \<lparr>stream = [], response = Inl e\<rparr>"

text \<open>One that streams the given chunks and is then rejected.\<close>

definition rejected_after :: "string list \<Rightarrow> error \<Rightarrow> generator" where
  "rejected_after chunks e opts = \<lparr>stream = chunks, response = Inl e\<rparr>"

text \<open>The payloads of the API for a run and for a workflow.\<close>

definition null_or_string :: "string option \<Rightarrow> json" where
  "null_or_string v = (case v of None \<Rightarrow> JNull | Some s \<Rightarrow> JStr s)"

definition run_payload :: "workflow_run \<Rightarrow> json" where
  "run_payload r =
     JObj [(''id'', JNum (r_id r)), (''name'', JStr (r_name r)), (''status'', JStr (r_status r)),
           (''conclusion'', null_or_string (r_conclusion r)),
           (''workflow_id'', JNum (r_workflow_id r)),
           (''created_at'', JStr (r_created_at r)), (''updated_at'', JStr (r_updated_at r)),
           (''run_started_at'', null_or_string (r_run_started_at r)),
           (''html_url'', JStr (r_html_url r))]"

definition workflow_payload :: "workflow \<Rightarrow> json" where
  "workflow_payload w =
     JObj [(''id'', JNum (w_id w)), (''name'', JStr (w_name w)), (''path'', JStr (w_path w)),
           (''state'', JStr (w_state w)), (''created_at'', JStr (w_created_at w)),
           (''updated_at'', JStr (w_updated_at w)), (''url'', JStr (w_url w)),
           (''html_url'', JStr (w_html_url w)), (''badge_url'', JStr (w_badge_url w))]"

definition runs_response :: "workflow_run list \<Rightarrow> http_response" where
  "runs_response runs =
     \<lparr>status = 200, statusText = ''OK'',
      body = Some (JObj [(''total_count'', JNum (int (length runs))),
                         (''workflow_runs'', JArr (map run_payload runs))])\<rparr>"

definition workflows_response :: "workflow list \<Rightarrow> http_response" where
  "workflows_response ws =
     \<lparr>status = 200, statusText = ''OK'',
      body = Some (JObj [(''total_count'', JNum (int (length ws))),
                         (''workflows'', JArr (map workflow_payload ws))])\<rparr>"

definition failed_response :: "nat \<Rightarrow> string \<Rightarrow> http_response" where
  "failed_response code text = \<lparr>status = code, statusText = text, body = None\<rparr>"

text \<open>
  An upstream API serving one repository: its workflows in listing order, each with the
  response of its runs endpoint; any other request is answered 404.
\<close>

fun runs_endpoint :: "string \<Rightarrow> string \<Rightarrow> (workflow \<times> http_response) list \<Rightarrow> string \<Rightarrow> http_response" where
  "runs_endpoint owner repo [] u = failed_response 404 ''Not Found''"
| "runs_endpoint owner repo ((w, resp) # rest) u =
     (if u = runs_url owner repo (w_id w) then resp else runs_endpoint owner repo rest u)"

definition api :: "string \<Rightarrow> string \<Rightarrow> (workflow \<times> http_response) list \<Rightarrow> fetch" where
  "api owner repo served req =
     (if url req = workflows_url owner repo then Inr (workflows_response (map fst served))
      else Inr (runs_endpoint owner repo served (url req)))"

definition two_digits :: "nat \<Rightarrow> string" where
  "two_digits n = [digit (n div 10), digit (n mod 10)]"

definition example_workflow :: "int \<Rightarrow> string \<Rightarrow> workflow" where
  "example_workflow i n =
     \<lparr>w_id = i, w_name = n, w_path = ''.github/workflows/'' @ n @ ''.yml'', w_state = ''active'',
      w_created_at = ''2023-06-01T00:00:00Z'', w_updated_at = ''2023-12-01T00:00:00Z'',
      w_url = ''https://api.github.com/repos/acme/app/actions/workflows/'' @ show_int i,
      w_html_url = ''https://github.com/acme/app/blob/main/.github/workflows/'' @ n @ ''.yml'',
      w_badge_url = ''https://github.com/acme/app/workflows/'' @ n @ ''/badge.svg''\<rparr>"

text \<open>A completed run of workflow 1, created on the given day of January 2024.\<close>

definition example_run :: "nat \<Rightarrow> string \<Rightarrow> workflow_run" where
  "example_run day conclusion =
     \<lparr>r_id = int day, r_name = ''ci'', r_status = ''completed'', r_conclusion = Some conclusion,
      r_workflow_id = 1,
      r_created_at = ''2024-01-'' @ two_digits day @ ''T00:00:00Z'',
      r_updated_at = ''2024-01-'' @ two_digits day @ ''T00:10:00Z'',
      r_run_started_at = Some (''2024-01-'' @ two_digits day @ ''T00:00:05Z''),
      r_html_url = ''https://github.com/acme/app/actions/runs/'' @ show_nat day\<rparr>"

text \<open>Fifteen runs, newest first: the last three failed, the twelve before succeeded.\<close>

definition ci_runs :: "workflow_run list" where
  "ci_runs =
     map (\<lambda>d. example_run d ''failure'') [15, 14, 13] @
     map (\<lambda>d. example_run d ''success'') [12, 11, 10, 9, 8, 7, 6, 5, 4, 3, 2, 1]"

definition ci_repository :: fetch where
  "ci_repository = api ''acme'' ''app'' [(example_workflow 1 ''ci'', runs_response ci_runs)]"

text \<open>Three runs that the API sends in an order that is not the order of creation.\<close>

definition shuffled_runs :: "workflow_run list" where
  "shuffled_runs = [example_run 2 ''success'', example_run 1 ''success'', example_run 3 ''failure'']"

definition shuffled_repository :: fetch where
  "shuffled_repository = api ''acme'' ''app'' [(example_workflow 1 ''ci'', runs_response shuffled_runs)]"

text \<open>Three workflows; the runs endpoint of the second answers 500.\<close>

definition partial_repository :: fetch where
  "partial_repository =
     api ''acme'' ''app''
       [(example_workflow 1 ''build'', runs_response [example_run 1 ''success'']),
        (example_workflow 2 ''test'', failed_response 500 ''Internal Server Error''),
        (example_workflow 3 ''deploy'', runs_response [example_run 2 ''success''])]"

text \<open>An assessment whose counts exceed its total.\<close>

definition inflated :: assessment where
  "inflated =
     \<lparr>a_name = ''ci'', a_status = Healthy, statusPercentage = 100,
      filePath = ''.github/workflows/ci.yml'', lastUpdated = ''2023-12-01T00:00:00Z'',
      totalRuns = 3, successfulRuns = 5, failedRuns = 5, successRate = 1000, summary = []\<rparr>"

text \<open>
  Two assessments of the workflow of the examples: one by its lifetime success rate
  (twelve of fifteen runs, 80 percent), one that holds the percentage below 50.
\<close>

definition healthy_ci :: assessment where
  "healthy_ci =
     \<lparr>a_name = ''ci'', a_status = Healthy, statusPercentage = 80,
      filePath = ''.github/workflows/ci.yml'', lastUpdated = ''2023-12-01T00:00:00Z'',
      totalRuns = 15, successfulRuns = 12, failedRuns = 3, successRate = 800, summary = []\<rparr>"

definition at_risk_ci :: assessment where
  "at_risk_ci =
     \<lparr>a_name = ''ci'', a_status = AtRisk, statusPercentage = 49,
      filePath = ''.github/workflows/ci.yml'', lastUpdated = ''2023-12-01T00:00:00Z'',
      totalRuns = 15, successfulRuns = 12, failedRuns = 3, successRate = 800, summary = []\<rparr>"

text \<open>A run record without its \<open>id\<close>.\<close>

definition run_without_id :: json where
  "run_without_id =
     JObj [(''name'', JStr ''ci''), (''status'', JStr ''completed''),
           (''conclusion'', JStr ''success''), (''workflow_id'', JNum 1),
           (''created_at'', JStr ''2024-01-01T00:00:00Z''),
           (''updated_at'', JStr ''2024-01-01T00:10:00Z''),
           (''run_started_at'', JNull),
           (''html_url'', JStr ''https://github.com/acme/app/actions/runs/1'')]"

text \<open>A generator that replies with a given text.\<close>

definition replying :: "string \<Rightarrow> generator" where
  "replying text opts = \<lparr>stream = [text], response = Inr text\<rparr>"

text \<open>A network that answers every request with the same response.\<close>

definition always :: "http_response \<Rightarrow> fetch" where
  "always resp req = Inr resp"

text \<open>A successful response whose run list holds a record without \<open>id\<close>, and one whose
  workflow list holds \<^verbatim>\<open>null\<close>.\<close>

definition damaged_runs_response :: http_response where
  "damaged_runs_response =
     \<lparr>status = 200, statusText = ''OK'',
      body = Some (JObj [(''total_count'', JNum 2),
                         (''workflow_runs'',
                          JArr [run_payload (example_run 1 ''success''), run_without_id])])\<rparr>"

definition damaged_workflows_response :: http_response where
  "damaged_workflows_response =
     \<lparr>status = 200, statusText = ''OK'',
      body = Some (JObj [(''total_count'', JNum 2),
                         (''workflows'',
                          JArr [workflow_payload (example_workflow 1 ''ci''), JNull])])\<rparr>"

text \<open>A remote function that resolves to an empty report.\<close>

definition remote_report :: "string \<times> string \<Rightarrow> error + string" where
  \<open>remote_report input = Inr ''{"workflows": []}''\<close>

section \<open>Schemas: when a parse succeeds\<close>

lemma ap_Inr_iff: "ap pf pa = Inr b \<longleftrightarrow> (\<exists>f a. pf = Inr f \<and> pa = Inr a \<and> b = f a)"
  by (auto simp: ap_def split: sum.splits)

lemma z_number_Inr_iff: "z_number p v = Inr n \<longleftrightarrow> v = Some (JNum n)"
  by (auto simp: z_number_def invalid_type_def split: option.splits json.splits)

lemma z_string_Inr_iff: "z_string p v = Inr s \<longleftrightarrow> v = Some (JStr s)"
  by (auto simp: z_string_def invalid_type_def split: option.splits json.splits)

lemma nullable_string_Inr_iff:
  "nullable z_string p v = Inr t \<longleftrightarrow> (v = Some JNull \<and> t = None) \<or> (\<exists>s. v = Some (JStr s) \<and> t = Some s)"
  by (auto simp: nullable_def z_string_def invalid_type_def split: option.splits json.splits sum.splits)

lemma gather_Inr_iff: "gather rs = Inr ys \<longleftrightarrow> rs = map Inr ys"
proof (induction rs arbitrary: ys)
  case Nil
  then show ?case by auto
next
  case (Cons r rs)
  then show ?case by (cases ys) (auto simp: ap_Inr_iff)
qed

lemmas schema_iffs = ap_Inr_iff field_def z_number_Inr_iff z_string_Inr_iff nullable_string_Inr_iff

lemma workflowRunSchema_path: "workflowRunSchema p v = Inr r \<longleftrightarrow> workflowRunSchema q v = Inr r"
proof (cases v)
  case None
  then show ?thesis by (simp add: workflowRunSchema_def invalid_type_def)
next
  case (Some x)
  then show ?thesis
    by (cases x) (simp_all add: workflowRunSchema_def invalid_type_def schema_iffs)
qed

lemma workflowSchema_path: "workflowSchema p v = Inr r \<longleftrightarrow> workflowSchema q v = Inr r"
proof (cases v)
  case None
  then show ?thesis by (simp add: workflowSchema_def invalid_type_def)
next
  case (Some x)
  then show ?thesis
    by (cases x) (simp_all add: workflowSchema_def invalid_type_def schema_iffs)
qed

lemma is_number_iff: "is_number v \<longleftrightarrow> (\<exists>n. v = Some (JNum n))"
  by (cases v rule: is_number.cases) auto

lemma is_string_iff: "is_string v \<longleftrightarrow> (\<exists>s. v = Some (JStr s))"
  by (cases v rule: is_string.cases) auto

lemma is_string_or_null_iff: "is_string_or_null v \<longleftrightarrow> v = Some JNull \<or> (\<exists>s. v = Some (JStr s))"
  by (cases v rule: is_string_or_null.cases) auto

lemma workflowRunSchema_well_formed:
  "workflowRunSchema p (Some x) = Inr r \<Longrightarrow> well_formed_run x"
  by (cases x)
     (auto simp: workflowRunSchema_def invalid_type_def schema_iffs
                 is_number_iff is_string_iff is_string_or_null_iff)

lemma workflowSchema_well_formed:
  "workflowSchema p (Some x) = Inr r \<Longrightarrow> well_formed_workflow x"
  by (cases x)
     (auto simp: workflowSchema_def invalid_type_def schema_iffs is_number_iff is_string_iff)

lemma run_payload_parses: "workflowRunSchema p (Some (run_payload r)) = Inr r"
  by (cases "r_conclusion r"; cases "r_run_started_at r")
     (simp_all add: workflowRunSchema_def run_payload_def field_def z_number_def z_string_def
        nullable_def null_or_string_def ap_def workflow_run.defs)

lemma workflow_payload_parses: "workflowSchema p (Some (workflow_payload w)) = Inr w"
  by (simp add: workflowSchema_def workflow_payload_def field_def z_number_def z_string_def
        ap_def workflow.defs)

lemma array_elements_parsed:
  assumes "map (\<lambda>(i, x). s (p @ [Index i]) (Some x)) (enumerate n xs) = map Inr ys"
    and "\<And>p q v r. s p v = Inr r \<longleftrightarrow> s q v = Inr r"
  shows "map (\<lambda>x. s [] (Some x)) xs = map Inr ys"
  using assms(1)
proof (induction xs arbitrary: n ys)
  case Nil
  then show ?case by simp
next
  case (Cons x xs)
  then obtain y ys' where ys: "ys = y # ys'" by (cases ys) auto
  with Cons.prems have hd: "s (p @ [Index n]) (Some x) = Inr y"
    and tl: "map (\<lambda>(i, x). s (p @ [Index i]) (Some x)) (enumerate (Suc n) xs) = map Inr ys'"
    by simp_all
  from hd assms(2) have "s [] (Some x) = Inr y" by blast
  with Cons.IH [OF tl] ys show ?case by simp
qed

lemma runs_schema_elements:
  assumes "workflowRunsResponseSchema p (Some (JObj kvs)) = Inr parsed"
    and "map_of kvs ''workflow_runs'' = Some (JArr xs)"
  shows "map (\<lambda>x. workflowRunSchema [] (Some x)) xs = map Inr (workflow_runs parsed)"
proof -
  from assms obtain n ys where
    ys: "gather (map (\<lambda>(i, x). workflowRunSchema ((p @ [Key ''workflow_runs'']) @ [Index i]) (Some x))
           (enumerate 0 xs)) = Inr ys"
    and parsed: "parsed = workflowRunsResponse.make n ys"
    by (auto simp: workflowRunsResponseSchema_def ap_Inr_iff field_def z_array_def)
  from ys have "map (\<lambda>(i, x). workflowRunSchema ((p @ [Key ''workflow_runs'']) @ [Index i]) (Some x))
           (enumerate 0 xs) = map Inr ys"
    by (simp add: gather_Inr_iff)
  then have "map (\<lambda>x. workflowRunSchema [] (Some x)) xs = map Inr ys"
    by (rule array_elements_parsed) (rule workflowRunSchema_path)
  with parsed show ?thesis by (simp add: workflowRunsResponse.defs)
qed

lemma workflows_schema_elements:
  assumes "workflowsResponseSchema p (Some (JObj kvs)) = Inr parsed"
    and "map_of kvs ''workflows'' = Some (JArr xs)"
  shows "map (\<lambda>x. workflowSchema [] (Some x)) xs = map Inr (workflows parsed)"
proof -
  from assms obtain n ys where
    ys: "gather (map (\<lambda>(i, x). workflowSchema ((p @ [Key ''workflows'']) @ [Index i]) (Some x))
           (enumerate 0 xs)) = Inr ys"
    and parsed: "parsed = workflowsResponse.make n ys"
    by (auto simp: workflowsResponseSchema_def ap_Inr_iff field_def z_array_def)
  from ys have "map (\<lambda>(i, x). workflowSchema ((p @ [Key ''workflows'']) @ [Index i]) (Some x))
           (enumerate 0 xs) = map Inr ys"
    by (simp add: gather_Inr_iff)
  then have "map (\<lambda>x. workflowSchema [] (Some x)) xs = map Inr ys"
    by (rule array_elements_parsed) (rule workflowSchema_path)
  with parsed show ?thesis by (simp add: workflowsResponse.defs)
qed

lemma malformed_run_rejects_payload:
  assumes "map_of kvs ''workflow_runs'' = Some (JArr xs)" and "x \<in> set xs" and "\<not> well_formed_run x"
  shows "\<exists>is. workflowRunsResponseSchema [] (Some (JObj kvs)) = Inl is"
proof (cases "workflowRunsResponseSchema [] (Some (JObj kvs))")
  case (Inl iss)
  then show ?thesis by blast
next
  case (Inr parsed)
  from runs_schema_elements [OF Inr assms(1)]
  have "map (\<lambda>x. workflowRunSchema [] (Some x)) xs = map Inr (workflow_runs parsed)" .
  then have "\<forall>x \<in> set xs. \<exists>r. workflowRunSchema [] (Some x) = Inr r"
    by (metis (no_types, lifting) imageE image_set list.set_map image_eqI)
  with assms(2) obtain r where "workflowRunSchema [] (Some x) = Inr r" by blast
  then have "well_formed_run x" by (rule workflowRunSchema_well_formed)
  with assms(3) show ?thesis by simp
qed

lemma malformed_workflow_rejects_payload:
  assumes "map_of kvs ''workflows'' = Some (JArr xs)" and "x \<in> set xs" and "\<not> well_formed_workflow x"
  shows "\<exists>is. workflowsResponseSchema [] (Some (JObj kvs)) = Inl is"
proof (cases "workflowsResponseSchema [] (Some (JObj kvs))")
  case (Inl iss)
  then show ?thesis by blast
next
  case (Inr parsed)
  from workflows_schema_elements [OF Inr assms(1)]
  have "map (\<lambda>x. workflowSchema [] (Some x)) xs = map Inr (workflows parsed)" .
  then have "\<forall>x \<in> set xs. \<exists>r. workflowSchema [] (Some x) = Inr r"
    by (metis (no_types, lifting) imageE image_set list.set_map image_eqI)
  with assms(2) obtain r where "workflowSchema [] (Some x) = Inr r" by blast
  then have "well_formed_workflow x" by (rule workflowSchema_well_formed)
  with assms(3) show ?thesis by simp
qed

section \<open>The tools: failure and success\<close>

lemma fetchWorkflowRuns_not_ok:
  assumes "fetch \<lparr>url = runs_url owner repo workflowId, headers = api_headers token\<rparr> = Inr resp"
    and "\<not> ok resp"
  shows "fetchWorkflowRuns token fetch (owner, repo, workflowId) =
           Inl (Error (''Failed to fetch workflow runs from GitHub: '' @ statusText resp))"
  using assms by (simp add: fetchWorkflowRuns_def)

lemma fetchWorkflows_not_ok:
  assumes "fetch \<lparr>url = workflows_url owner repo, headers = api_headers token\<rparr> = Inr resp"
    and "\<not> ok resp"
  shows "fetchWorkflows token fetch (owner, repo) =
           Inl (Error (''Failed to fetch workflows from GitHub: '' @ statusText resp))"
  using assms by (simp add: fetchWorkflows_def)

lemma copy_run:
  "\<lparr>r_id = r_id run, r_name = r_name run, r_status = r_status run,
    r_conclusion = r_conclusion run, r_workflow_id = r_workflow_id run,
    r_created_at = r_created_at run, r_updated_at = r_updated_at run,
    r_run_started_at = r_run_started_at run, r_html_url = r_html_url run\<rparr> = run"
  by simp

lemma copy_workflow:
  "\<lparr>w_id = w_id workflow, w_name = w_name workflow, w_path = w_path workflow,
    w_state = w_state workflow, w_created_at = w_created_at workflow,
    w_updated_at = w_updated_at workflow, w_url = w_url workflow,
    w_html_url = w_html_url workflow, w_badge_url = w_badge_url workflow\<rparr> = workflow"
  by simp

lemma fetchWorkflowRuns_ok:
  assumes "fetch \<lparr>url = runs_url owner repo workflowId, headers = api_headers token\<rparr> = Inr resp"
    and "ok resp" and "body resp = Some data"
  shows "fetchWorkflowRuns token fetch (owner, repo, workflowId) =
           (case workflowRunsResponseSchema [] (Some data) of
              Inl is \<Rightarrow> Inl (ZodError is)
            | Inr parsed \<Rightarrow> Inr (workflow_runs parsed))"
  using assms
  by (simp add: fetchWorkflowRuns_def response_json_def parse_def copy_run split: sum.splits)

lemma fetchWorkflows_ok:
  assumes "fetch \<lparr>url = workflows_url owner repo, headers = api_headers token\<rparr> = Inr resp"
    and "ok resp" and "body resp = Some data"
  shows "fetchWorkflows token fetch (owner, repo) =
           (case workflowsResponseSchema [] (Some data) of
              Inl is \<Rightarrow> Inl (ZodError is)
            | Inr parsed \<Rightarrow> Inr (workflows parsed))"
  using assms
  by (simp add: fetchWorkflows_def response_json_def parse_def copy_workflow split: sum.splits)

lemma payloads_parse:
  assumes "\<And>p x. s p (Some (enc x)) = Inr x"
  shows "gather (map (\<lambda>(i, x). s (f i) (Some x)) (enumerate n (map enc xs))) = Inr xs"
  by (induction xs arbitrary: n) (simp_all add: assms ap_def)

lemma runs_response_parses:
  "workflowRunsResponseSchema [] (body (runs_response runs)) =
     Inr \<lparr>rs_total_count = int (length runs), workflow_runs = runs\<rparr>"
proof -
  have "gather (map (\<lambda>(i, x). workflowRunSchema [Key ''workflow_runs'', Index i] (Some x))
          (enumerate 0 (map run_payload runs))) = Inr runs"
    by (rule payloads_parse) (rule run_payload_parses)
  then show ?thesis
    by (simp add: runs_response_def workflowRunsResponseSchema_def field_def z_number_def
          z_array_def ap_def workflowRunsResponse.defs)
qed

lemma workflows_response_parses:
  "workflowsResponseSchema [] (body (workflows_response ws)) =
     Inr \<lparr>ws_total_count = int (length ws), workflows = ws\<rparr>"
proof -
  have "gather (map (\<lambda>(i, x). workflowSchema [Key ''workflows'', Index i] (Some x))
          (enumerate 0 (map workflow_payload ws))) = Inr ws"
    by (rule payloads_parse) (rule workflow_payload_parses)
  then show ?thesis
    by (simp add: workflows_response_def workflowsResponseSchema_def field_def z_number_def
          z_array_def ap_def workflowsResponse.defs)
qed

lemma runs_served:
  assumes "fetch \<lparr>url = runs_url owner repo workflowId, headers = api_headers token\<rparr> = Inr (runs_response runs)"
  shows "fetchWorkflowRuns token fetch (owner, repo, workflowId) = Inr runs"
proof -
  have "ok (runs_response runs)" by (simp add: ok_def runs_response_def)
  moreover obtain data where d: "body (runs_response runs) = Some data"
    by (simp add: runs_response_def)
  ultimately have "fetchWorkflowRuns token fetch (owner, repo, workflowId) =
           (case workflowRunsResponseSchema [] (Some data) of
              Inl is \<Rightarrow> Inl (ZodError is)
            | Inr parsed \<Rightarrow> Inr (workflow_runs parsed))"
    using assms by (intro fetchWorkflowRuns_ok)
  with d runs_response_parses [of runs] show ?thesis by simp
qed

lemma workflows_served:
  assumes "fetch \<lparr>url = workflows_url owner repo, headers = api_headers token\<rparr> = Inr (workflows_response ws)"
  shows "fetchWorkflows token fetch (owner, repo) = Inr ws"
proof -
  have "ok (workflows_response ws)" by (simp add: ok_def workflows_response_def)
  moreover obtain data where d: "body (workflows_response ws) = Some data"
    by (simp add: workflows_response_def)
  ultimately have "fetchWorkflows token fetch (owner, repo) =
           (case workflowsResponseSchema [] (Some data) of
              Inl is \<Rightarrow> Inl (ZodError is)
            | Inr parsed \<Rightarrow> Inr (workflows parsed))"
    using assms by (intro fetchWorkflows_ok)
  with d workflows_response_parses [of ws] show ?thesis by simp
qed

section \<open>The flow\<close>

lemma flow_result:
  "workflowHealthFlow token fetch generateStream (owner, repo) =
     (stream (generateStream \<lparr>prompt = health_prompt owner repo,
                tools = (fetchWorkflows token fetch, fetchWorkflowRuns token fetch),
                temperature = 3 / 10\<rparr>),
      response (generateStream \<lparr>prompt = health_prompt owner repo,
                tools = (fetchWorkflows token fetch, fetchWorkflowRuns token fetch),
                temperature = 3 / 10\<rparr>))"
  by (simp add: workflowHealthFlow_def Let_def split: sum.splits)

section \<open>The client's parser\<close>

lemma split_on_no_sep: "sep \<notin> set s \<Longrightarrow> split_on sep s = [s]"
  by (induction s) auto

lemma split_on_append: "sep \<notin> set a \<Longrightarrow> split_on sep (a @ sep # rest) = a # split_on sep rest"
  by (induction a) auto

lemma split_on_first: "\<exists>xs. split_on sep s = takeWhile (\<lambda>c. c \<noteq> sep) s # xs"
  by (induction s) (auto split: list.splits)

lemma trim_Nil: "trim [] = []"
  by (simp add: trim_def)

lemma mutationFn_one_segment:
  assumes "split_on CHR ''/'' repoInput = [x]"
  shows "mutationFn callable repoInput =
           ([], Inl (Error ''Please enter a valid repository in format: owner/repo''))"
  using assms by (simp add: mutationFn_def)

lemma mutationFn_two_segments:
  assumes "split_on CHR ''/'' repoInput = x # y # zs"
  shows "mutationFn callable repoInput =
           (if trim x = [] \<or> trim y = []
            then ([], Inl (Error ''Please enter a valid repository in format: owner/repo''))
            else ([(trim x, trim y)], callable (trim x, trim y)))"
  using assms by (simp add: mutationFn_def)

lemma trim_examples:
  "trim ''a'' = ''a''" "trim ''b'' = ''b''" "trim '' a '' = ''a''" "trim '' b '' = ''b''"
  "trim '' '' = []"
  by (simp_all add: trim_def is_space_def)

lemma split_examples:
  "split_on CHR ''/'' ''a//c'' = [''a'', [], ''c'']"
  "split_on CHR ''/'' ''//'' = [[], [], []]"
  "split_on CHR ''/'' '' /b/c'' = ['' '', ''b'', ''c'']"
  by simp_all

section \<open>The example repositories\<close>

lemma runs_url_1: "runs_url ''acme'' ''app'' 1 = ''https://api.github.com/repos/acme/app/actions/workflows/1/runs?per_page=100''"
  by (simp add: runs_url_def show_int_def show_nat.simps digit_def)

lemma runs_url_2: "runs_url ''acme'' ''app'' 2 = ''https://api.github.com/repos/acme/app/actions/workflows/2/runs?per_page=100''"
  by (simp add: runs_url_def show_int_def show_nat.simps digit_def)

lemma runs_url_3: "runs_url ''acme'' ''app'' 3 = ''https://api.github.com/repos/acme/app/actions/workflows/3/runs?per_page=100''"
  by (simp add: runs_url_def show_int_def show_nat.simps digit_def)

lemma workflows_url_acme: "workflows_url ''acme'' ''app'' = ''https://api.github.com/repos/acme/app/actions/workflows''"
  by (simp add: workflows_url_def)

lemma ci_listing:
  "fetchWorkflows None ci_repository (''acme'', ''app'') = Inr [example_workflow 1 ''ci'']"
  by (rule workflows_served) (simp add: ci_repository_def api_def)

lemma ci_history:
  "fetchWorkflowRuns None ci_repository (''acme'', ''app'', 1) = Inr ci_runs"
  by (rule runs_served)
     (simp add: ci_repository_def api_def example_workflow_def runs_url_1 workflows_url_acme)

lemma ci_counts:
  "length ci_runs = 15" "length (filter is_success ci_runs) = 12" "length (filter is_failure ci_runs) = 3"
  by (simp_all add: ci_runs_def example_run_def is_success_def is_failure_def)

lemma ci_streak: "failure_streak ci_runs"
  by (simp add: failure_streak_def latest_completed_def ci_runs_def example_run_def completed_def
        is_success_def is_failure_def two_digits_def digit_def)

lemma shuffled_history:
  "fetchWorkflowRuns None shuffled_repository (''acme'', ''app'', 1) = Inr shuffled_runs"
  by (rule runs_served)
     (simp add: shuffled_repository_def api_def example_workflow_def runs_url_1 workflows_url_acme)

lemma shuffled_created:
  "map r_created_at shuffled_runs =
     [''2024-01-02T00:00:00Z'', ''2024-01-01T00:00:00Z'', ''2024-01-03T00:00:00Z'']"
  by (simp add: shuffled_runs_def example_run_def two_digits_def digit_def)

lemma partial_listing:
  "fetchWorkflows None partial_repository (''acme'', ''app'') =
     Inr [example_workflow 1 ''build'', example_workflow 2 ''test'', example_workflow 3 ''deploy'']"
  by (rule workflows_served) (simp add: partial_repository_def api_def)

lemma partial_build:
  "fetchWorkflowRuns None partial_repository (''acme'', ''app'', 1) = Inr [example_run 1 ''success'']"
  by (rule runs_served)
     (simp add: partial_repository_def api_def example_workflow_def runs_url_1 workflows_url_acme)

lemma partial_test:
  "fetchWorkflowRuns None partial_repository (''acme'', ''app'', 2) =
     Inl (Error ''Failed to fetch workflow runs from GitHub: Internal Server Error'')"
proof -
  have "partial_repository \<lparr>url = runs_url ''acme'' ''app'' 2, headers = api_headers None\<rparr> =
          Inr (failed_response 500 ''Internal Server Error'')"
    by (simp add: partial_repository_def api_def example_workflow_def runs_url_1 runs_url_2
          workflows_url_acme)
  from fetchWorkflowRuns_not_ok [where fetch = partial_repository, OF this] show ?thesis
    by (simp add: ok_def failed_response_def)
qed

lemma partial_deploy:
  "fetchWorkflowRuns None partial_repository (''acme'', ''app'', 3) = Inr [example_run 2 ''success'']"
  by (rule runs_served)
     (simp add: partial_repository_def api_def example_workflow_def runs_url_1 runs_url_2 runs_url_3
        workflows_url_acme)

section \<open>The claims\<close>

text \<open>
  Claim C1, as amended. The flow computes and checks no counts: whatever text the
  generator's response resolves to is what the flow returns, so an assessment in the output
  has \<open>successfulRuns + failedRuns \<le> totalRuns\<close> only when the generator wrote it so.
\<close>

theorem flow_returns_generator_text:
  assumes "response (generateStream
             \<lparr>prompt = health_prompt owner repo,
              tools = (fetchWorkflows token fetch, fetchWorkflowRuns token fetch),
              temperature = 3 / 10\<rparr>) = Inr reply"
  shows "snd (workflowHealthFlow token fetch generateStream (owner, repo)) = Inr reply"
  using assms by (simp add: flow_result)

theorem flow_returns_generator_text_witness:
  "response (replying (report_text [inflated])
             \<lparr>prompt = health_prompt ''acme'' ''app'',
              tools = (fetchWorkflows None ci_repository, fetchWorkflowRuns None ci_repository),
              temperature = 3 / 10\<rparr>) = Inr (report_text [inflated]) \<and>
   snd (workflowHealthFlow None ci_repository (replying (report_text [inflated])) (''acme'', ''app''))
     = Inr (report_text [inflated])"
proof -
  have h: "response (replying (report_text [inflated])
             \<lparr>prompt = health_prompt ''acme'' ''app'',
              tools = (fetchWorkflows None ci_repository, fetchWorkflowRuns None ci_repository),
              temperature = 3 / 10\<rparr>) = Inr (report_text [inflated])"
    by (simp add: replying_def)
  from h flow_returns_generator_text
    [where generateStream = "replying (report_text [inflated])" and owner = "''acme''"
       and repo = "''app''" and token = None and fetch = ci_repository
       and reply = "report_text [inflated]"]
  show ?thesis by simp
qed

text \<open>
  The claim as stated fails: a generation whose text reports 5 successful and 5 failed
  runs out of 3 is delivered and returned unchanged.
\<close>

theorem inconsistent_counts_counterexample:
  "workflowHealthFlow None ci_repository (replying (report_text [inflated])) (''acme'', ''app'')
     = ([report_text [inflated]], Inr (report_text [inflated])) \<and>
   \<not> successfulRuns inflated + failedRuns inflated \<le> totalRuns inflated"
  by (simp add: flow_result replying_def inflated_def)

text \<open>
  Claim C2, as amended. For a listed workflow whose three most recent completed runs all
  failed, the bucket in the output is the one the generator wrote, \<open>Healthy\<close> included:
  whatever generator is used, when its text assigns \<open>Healthy\<close> to that workflow the flow
  returns that text. The hypotheses on the runs are those of the claim; the code never
  looks at them, and caps nothing.
\<close>

theorem healthy_bucket_not_capped:
  assumes "fetchWorkflows token fetch (owner, repo) = Inr ws" and "w \<in> set ws"
    and "fetchWorkflowRuns token fetch (owner, repo, w_id w) = Inr runs"
    and "failure_streak runs"
    and "response (generateStream
             \<lparr>prompt = health_prompt owner repo,
              tools = (fetchWorkflows token fetch, fetchWorkflowRuns token fetch),
              temperature = 3 / 10\<rparr>) = Inr (report_text report)"
    and "a \<in> set report" and "a_name a = w_name w" and "a_status a = Healthy"
  shows "snd (workflowHealthFlow token fetch generateStream (owner, repo)) = Inr (report_text report) \<and>
         (\<exists>a' \<in> set report. a_name a' = w_name w \<and> a_status a' = Healthy)"
  using assms by (auto simp: flow_result)

theorem healthy_bucket_not_capped_witness:
  "fetchWorkflows None ci_repository (''acme'', ''app'') = Inr [example_workflow 1 ''ci''] \<and>
   fetchWorkflowRuns None ci_repository (''acme'', ''app'', w_id (example_workflow 1 ''ci'')) = Inr ci_runs \<and>
   failure_streak ci_runs \<and>
   a_name healthy_ci = w_name (example_workflow 1 ''ci'') \<and> a_status healthy_ci = Healthy \<and>
   snd (workflowHealthFlow None ci_repository (replying (report_text [healthy_ci])) (''acme'', ''app''))
     = Inr (report_text [healthy_ci])"
proof -
  have m: "example_workflow 1 ''ci'' \<in> set [example_workflow 1 ''ci'']" by simp
  have h: "fetchWorkflowRuns None ci_repository (''acme'', ''app'', w_id (example_workflow 1 ''ci'')) = Inr ci_runs"
    by (simp add: example_workflow_def ci_history)
  have g: "response (replying (report_text [healthy_ci])
             \<lparr>prompt = health_prompt ''acme'' ''app'',
              tools = (fetchWorkflows None ci_repository, fetchWorkflowRuns None ci_repository),
              temperature = 3 / 10\<rparr>) = Inr (report_text [healthy_ci])"
    by (simp add: replying_def)
  have a: "healthy_ci \<in> set [healthy_ci]" by simp
  have n: "a_name healthy_ci = w_name (example_workflow 1 ''ci'')"
    by (simp add: healthy_ci_def example_workflow_def)
  have s: "a_status healthy_ci = Healthy" by (simp add: healthy_ci_def)
  from healthy_bucket_not_capped
    [where generateStream = "replying (report_text [healthy_ci])" and fetch = ci_repository,
     OF ci_listing m h ci_streak g a n s]
    ci_listing h ci_streak n s
  show ?thesis by blast
qed

text \<open>
  The claim as stated fails: fifteen runs, the latest three failed and the twelve before
  succeeded; a generation that assigns \<open>Healthy\<close> at 80 percent, the lifetime success rate
  under the thresholds of the prompt, is what the flow returns.
\<close>

theorem healthy_despite_streak_counterexample:
  "snd (workflowHealthFlow None ci_repository (replying (report_text [healthy_ci])) (''acme'', ''app''))
     = Inr (report_text [healthy_ci]) \<and>
   a_name healthy_ci = w_name (example_workflow 1 ''ci'') \<and>
   a_status healthy_ci = Healthy \<and>
   a_status healthy_ci = bucket_of (statusPercentage healthy_ci) \<and>
   fetchWorkflows None ci_repository (''acme'', ''app'') = Inr [example_workflow 1 ''ci''] \<and>
   fetchWorkflowRuns None ci_repository (''acme'', ''app'', 1) = Inr ci_runs \<and>
   length ci_runs = 15 \<and> length (filter is_success ci_runs) = 12 \<and>
   failure_streak ci_runs"
proof -
  have "snd (workflowHealthFlow None ci_repository (replying (report_text [healthy_ci])) (''acme'', ''app''))
     = Inr (report_text [healthy_ci])"
    by (simp add: flow_result replying_def)
  moreover have "a_name healthy_ci = w_name (example_workflow 1 ''ci'')"
    by (simp add: healthy_ci_def example_workflow_def)
  moreover have "a_status healthy_ci = Healthy" "a_status healthy_ci = bucket_of (statusPercentage healthy_ci)"
    by (simp_all add: healthy_ci_def bucket_of_def)
  ultimately show ?thesis
    using ci_listing ci_history ci_counts ci_streak by blast
qed

text \<open>
  Claim C3, as amended. The result of a run is exactly what the generator returned in
  that run: its chunks, forwarded in order, and its response, the text returned or the
  error thrown again. So two runs on the same input and the same upstream data give the
  same result if and only if the generator gave the same generation in both. The
  assessment is the generator's, sampled at temperature 0.3; the code has no scoring
  function.
\<close>

theorem runs_differ_only_by_generation:
  "workflowHealthFlow token fetch first_run (owner, repo) =
     (stream (first_run
             \<lparr>prompt = health_prompt owner repo,
              tools = (fetchWorkflows token fetch, fetchWorkflowRuns token fetch),
              temperature = 3 / 10\<rparr>),
      response (first_run
             \<lparr>prompt = health_prompt owner repo,
              tools = (fetchWorkflows token fetch, fetchWorkflowRuns token fetch),
              temperature = 3 / 10\<rparr>)) \<and>
   workflowHealthFlow token fetch second_run (owner, repo) =
     (stream (second_run
             \<lparr>prompt = health_prompt owner repo,
              tools = (fetchWorkflows token fetch, fetchWorkflowRuns token fetch),
              temperature = 3 / 10\<rparr>),
      response (second_run
             \<lparr>prompt = health_prompt owner repo,
              tools = (fetchWorkflows token fetch, fetchWorkflowRuns token fetch),
              temperature = 3 / 10\<rparr>)) \<and>
   (workflowHealthFlow token fetch first_run (owner, repo) =
    workflowHealthFlow token fetch second_run (owner, repo) \<longleftrightarrow>
    first_run
             \<lparr>prompt = health_prompt owner repo,
              tools = (fetchWorkflows token fetch, fetchWorkflowRuns token fetch),
              temperature = 3 / 10\<rparr> =
    second_run
             \<lparr>prompt = health_prompt owner repo,
              tools = (fetchWorkflows token fetch, fetchWorkflowRuns token fetch),
              temperature = 3 / 10\<rparr>)"
  by (auto simp: flow_result intro: generation.equality)

text \<open>
  The claim as stated fails: on the same input and the same run history, a generation
  that assigns \<open>Healthy\<close> at 80 percent and one that assigns \<open>At Risk\<close> at 49 percent are
  both replies the flow can receive, and it returns each as it is.
\<close>

theorem two_runs_differ_counterexample:
  "workflowHealthFlow None ci_repository (replying (report_text [healthy_ci])) (''acme'', ''app'')
   \<noteq> workflowHealthFlow None ci_repository (replying (report_text [at_risk_ci])) (''acme'', ''app'')"
  by (simp add: flow_result replying_def report_text_def assessment_text_def
        healthy_ci_def at_risk_ci_def)

text \<open>
  Claim C4, as amended. The check of the identifier is the web client's. An identifier
  without \<open>/\<close>, or whose owner or repository component is empty or only white space, makes
  the client's mutation fail with the source's \<^verbatim>\<open>Error\<close> asking for \<open>owner/repo\<close>, and
  the remote function is not called: the list of calls is empty.
\<close>

theorem malformed_identifier_rejected:
  assumes "CHR ''/'' \<notin> set repoInput \<or>
           (\<exists>ow rest. repoInput = ow @ CHR ''/'' # rest \<and> CHR ''/'' \<notin> set ow \<and>
              (trim ow = [] \<or> trim (takeWhile (\<lambda>c. c \<noteq> CHR ''/'') rest) = []))"
  shows "mutationFn callable repoInput =
           ([], Inl (Error ''Please enter a valid repository in format: owner/repo''))"
  using assms
proof
  assume "CHR ''/'' \<notin> set repoInput"
  then have "split_on CHR ''/'' repoInput = [repoInput]" by (rule split_on_no_sep)
  then show ?thesis by (rule mutationFn_one_segment)
next
  assume "\<exists>ow rest. repoInput = ow @ CHR ''/'' # rest \<and> CHR ''/'' \<notin> set ow \<and>
              (trim ow = [] \<or> trim (takeWhile (\<lambda>c. c \<noteq> CHR ''/'') rest) = [])"
  then obtain ow rest where s: "repoInput = ow @ CHR ''/'' # rest" and ow: "CHR ''/'' \<notin> set ow"
    and empty: "trim ow = [] \<or> trim (takeWhile (\<lambda>c. c \<noteq> CHR ''/'') rest) = []"
    by blast
  obtain zs where "split_on CHR ''/'' rest = takeWhile (\<lambda>c. c \<noteq> CHR ''/'') rest # zs"
    using split_on_first by blast
  with s ow have "split_on CHR ''/'' repoInput = ow # takeWhile (\<lambda>c. c \<noteq> CHR ''/'') rest # zs"
    by (simp add: split_on_append)
  from mutationFn_two_segments [OF this] empty show ?thesis by auto
qed

theorem malformed_identifier_rejected_witness:
  "mutationFn remote_report ''not-a-repo'' = ([], Inl (Error ''Please enter a valid repository in format: owner/repo'')) \<and>
   mutationFn remote_report ''/app'' = ([], Inl (Error ''Please enter a valid repository in format: owner/repo'')) \<and>
   mutationFn remote_report ''acme/'' = ([], Inl (Error ''Please enter a valid repository in format: owner/repo'')) \<and>
   mutationFn remote_report '' /app'' = ([], Inl (Error ''Please enter a valid repository in format: owner/repo''))"
proof -
  have a: "CHR ''/'' \<notin> set ''not-a-repo''" by simp
  have b: "\<exists>ow rest. ''/app'' = ow @ CHR ''/'' # rest \<and> CHR ''/'' \<notin> set ow \<and>
              (trim ow = [] \<or> trim (takeWhile (\<lambda>c. c \<noteq> CHR ''/'') rest) = [])"
    by (rule exI [of _ "[]"], rule exI [of _ "''app''"]) (simp add: trim_Nil)
  have c: "\<exists>ow rest. ''acme/'' = ow @ CHR ''/'' # rest \<and> CHR ''/'' \<notin> set ow \<and>
              (trim ow = [] \<or> trim (takeWhile (\<lambda>c. c \<noteq> CHR ''/'') rest) = [])"
    by (rule exI [of _ "''acme''"], rule exI [of _ "[]"]) (simp add: trim_Nil)
  have d: "\<exists>ow rest. '' /app'' = ow @ CHR ''/'' # rest \<and> CHR ''/'' \<notin> set ow \<and>
              (trim ow = [] \<or> trim (takeWhile (\<lambda>c. c \<noteq> CHR ''/'') rest) = [])"
    by (rule exI [of _ "'' ''"], rule exI [of _ "''app''"]) (simp add: trim_examples)
  show ?thesis
    using malformed_identifier_rejected [of "''not-a-repo''" remote_report, OF disjI1, OF a]
      malformed_identifier_rejected [of "''/app''" remote_report, OF disjI2, OF b]
      malformed_identifier_rejected [of "''acme/''" remote_report, OF disjI2, OF c]
      malformed_identifier_rejected [of "'' /app''" remote_report, OF disjI2, OF d]
    by simp
qed

text \<open>
  The claim as stated fails for the flow itself: its input schema takes any two
  strings. Called with an empty owner and an empty repository it raises no error of
  invalid input but runs the generation and returns its text, and the tool it offers
  sends the request for that repository and fails only with the answer of the API.
\<close>

theorem flow_accepts_empty_identifier_counterexample:
  "workflowHealthFlow None ci_repository (replying (report_text [])) ([], []) =
     ([report_text []], Inr (report_text [])) \<and>
   fetchWorkflows None ci_repository ([], []) =
     Inl (Error ''Failed to fetch workflows from GitHub: Not Found'')"
proof -
  have "ci_repository \<lparr>url = workflows_url [] [], headers = api_headers None\<rparr> =
          Inr (failed_response 404 ''Not Found'')"
    by (simp add: ci_repository_def api_def workflows_url_def runs_url_1 example_workflow_def)
  from fetchWorkflows_not_ok [where fetch = ci_repository, OF this]
  have "fetchWorkflows None ci_repository ([], []) =
     Inl (Error ''Failed to fetch workflows from GitHub: Not Found'')"
    by (simp add: ok_def failed_response_def)
  then show ?thesis by (simp add: flow_result replying_def)
qed

text \<open>
  Claim C5, as amended. On a response that is not 2xx, both tools fail with an
  \<^verbatim>\<open>Error\<close> whose message is a fixed text followed by the \<^verbatim>\<open>statusText\<close> of the
  response. The numeric status is not part of the error.
\<close>

theorem upstream_error_message:
  "(fetch \<lparr>url = workflows_url owner repo, headers = api_headers token\<rparr> = Inr resp \<and> \<not> ok resp \<longrightarrow>
      fetchWorkflows token fetch (owner, repo) =
        Inl (Error (''Failed to fetch workflows from GitHub: '' @ statusText resp))) \<and>
   (fetch \<lparr>url = runs_url owner repo workflowId, headers = api_headers token\<rparr> = Inr resp' \<and> \<not> ok resp' \<longrightarrow>
      fetchWorkflowRuns token fetch (owner, repo, workflowId) =
        Inl (Error (''Failed to fetch workflow runs from GitHub: '' @ statusText resp')))"
  by (simp add: fetchWorkflows_not_ok fetchWorkflowRuns_not_ok)

theorem upstream_error_message_witness:
  "always (failed_response 404 ''Not Found'')
     \<lparr>url = workflows_url ''acme'' ''app'', headers = api_headers None\<rparr> =
     Inr (failed_response 404 ''Not Found'') \<and>
   \<not> ok (failed_response 404 ''Not Found'') \<and>
   fetchWorkflows None (always (failed_response 404 ''Not Found'')) (''acme'', ''app'') =
     Inl (Error ''Failed to fetch workflows from GitHub: Not Found'') \<and>
   always (failed_response 404 ''Not Found'')
     \<lparr>url = runs_url ''acme'' ''app'' 1, headers = api_headers None\<rparr> =
     Inr (failed_response 404 ''Not Found'') \<and>
   fetchWorkflowRuns None (always (failed_response 404 ''Not Found'')) (''acme'', ''app'', 1) =
     Inl (Error ''Failed to fetch workflow runs from GitHub: Not Found'')"
proof -
  have a: "always (failed_response 404 ''Not Found'')
     \<lparr>url = workflows_url ''acme'' ''app'', headers = api_headers None\<rparr> =
     Inr (failed_response 404 ''Not Found'')"
    and b: "always (failed_response 404 ''Not Found'')
     \<lparr>url = runs_url ''acme'' ''app'' 1, headers = api_headers None\<rparr> =
     Inr (failed_response 404 ''Not Found'')"
    by (simp_all add: always_def)
  have c: "\<not> ok (failed_response 404 ''Not Found'')"
    by (simp add: ok_def failed_response_def)
  have s: "statusText (failed_response 404 ''Not Found'') = ''Not Found''"
    by (simp add: failed_response_def)
  note f = upstream_error_message
    [where fetch = "always (failed_response 404 ''Not Found'')" and owner = "''acme''"
       and repo = "''app''" and token = None and workflowId = 1
       and resp = "failed_response 404 ''Not Found''"
       and resp' = "failed_response 404 ''Not Found''"]
  from f [THEN conjunct1, rule_format, OF conjI, OF a c]
  have 1: "fetchWorkflows None (always (failed_response 404 ''Not Found'')) (''acme'', ''app'') =
     Inl (Error ''Failed to fetch workflows from GitHub: Not Found'')"
    by (simp add: s)
  from f [THEN conjunct2, rule_format, OF conjI, OF b c]
  have 2: "fetchWorkflowRuns None (always (failed_response 404 ''Not Found'')) (''acme'', ''app'', 1) =
     Inl (Error ''Failed to fetch workflow runs from GitHub: Not Found'')"
    by (simp add: s)
  from a b c 1 2 show ?thesis by blast
qed

text \<open>
  The claim as stated fails: a 500 and a 503 response with an empty status text (as over
  HTTP/2) give one and the same error, so the error does not carry the status.
\<close>

theorem status_not_carried_counterexample:
  "fetchWorkflows None (always (failed_response 500 [])) (''acme'', ''app'') =
   fetchWorkflows None (always (failed_response 503 [])) (''acme'', ''app'') \<and>
   fetchWorkflowRuns None (always (failed_response 500 [])) (''acme'', ''app'', 1) =
   fetchWorkflowRuns None (always (failed_response 503 [])) (''acme'', ''app'', 1) \<and>
   fetchWorkflowRuns None (always (failed_response 500 [])) (''acme'', ''app'', 1) =
   Inl (Error ''Failed to fetch workflow runs from GitHub: '') \<and>
   \<not> ok (failed_response 500 []) \<and> \<not> ok (failed_response 503 []) \<and>
   status (failed_response 500 []) \<noteq> status (failed_response 503 [])"
  by (simp add: fetchWorkflows_def fetchWorkflowRuns_def always_def failed_response_def ok_def)

text \<open>
  Claim C6. When the list of a successful response holds a record that is not well formed
  (a field missing, of the wrong type, or \<^verbatim>\<open>null\<close> where a value is required), the whole
  fetch fails with a \<^verbatim>\<open>ZodError\<close>: no run and no workflow is returned. This holds for
  \<^verbatim>\<open>fetchWorkflowRuns\<close> and for \<^verbatim>\<open>fetchWorkflows\<close>.
\<close>

theorem malformed_record_fails_fetch:
  "(fetch \<lparr>url = runs_url owner repo workflowId, headers = api_headers token\<rparr> = Inr resp \<and>
    ok resp \<and> body resp = Some (JObj kvs) \<and> map_of kvs ''workflow_runs'' = Some (JArr xs) \<and>
    x \<in> set xs \<and> \<not> well_formed_run x \<longrightarrow>
      (\<exists>is. fetchWorkflowRuns token fetch (owner, repo, workflowId) = Inl (ZodError is))) \<and>
   (fetch \<lparr>url = workflows_url owner repo, headers = api_headers token\<rparr> = Inr resp' \<and>
    ok resp' \<and> body resp' = Some (JObj kvs') \<and> map_of kvs' ''workflows'' = Some (JArr xs') \<and>
    x' \<in> set xs' \<and> \<not> well_formed_workflow x' \<longrightarrow>
      (\<exists>is. fetchWorkflows token fetch (owner, repo) = Inl (ZodError is)))"
proof (intro conjI impI; elim conjE)
  assume f: "fetch \<lparr>url = runs_url owner repo workflowId, headers = api_headers token\<rparr> = Inr resp"
    and o: "ok resp" and b: "body resp = Some (JObj kvs)"
    and m: "map_of kvs ''workflow_runs'' = Some (JArr xs)" "x \<in> set xs" "\<not> well_formed_run x"
  from malformed_run_rejects_payload [OF m] obtain iss where
    "workflowRunsResponseSchema [] (Some (JObj kvs)) = Inl iss" ..
  with fetchWorkflowRuns_ok [where fetch = fetch, OF f o b]
  show "\<exists>is. fetchWorkflowRuns token fetch (owner, repo, workflowId) = Inl (ZodError is)"
    by simp
next
  assume f: "fetch \<lparr>url = workflows_url owner repo, headers = api_headers token\<rparr> = Inr resp'"
    and o: "ok resp'" and b: "body resp' = Some (JObj kvs')"
    and m: "map_of kvs' ''workflows'' = Some (JArr xs')" "x' \<in> set xs'" "\<not> well_formed_workflow x'"
  from malformed_workflow_rejects_payload [OF m] obtain iss where
    "workflowsResponseSchema [] (Some (JObj kvs')) = Inl iss" ..
  with fetchWorkflows_ok [where fetch = fetch, OF f o b]
  show "\<exists>is. fetchWorkflows token fetch (owner, repo) = Inl (ZodError is)"
    by simp
qed

theorem malformed_record_fails_fetch_witness:
  "ok damaged_runs_response \<and>
   body damaged_runs_response =
     Some (JObj [(''total_count'', JNum 2),
                 (''workflow_runs'', JArr [run_payload (example_run 1 ''success''), run_without_id])]) \<and>
   \<not> well_formed_run run_without_id \<and>
   (\<exists>is. fetchWorkflowRuns None (always damaged_runs_response) (''acme'', ''app'', 1) = Inl (ZodError is)) \<and>
   ok damaged_workflows_response \<and>
   body damaged_workflows_response =
     Some (JObj [(''total_count'', JNum 2),
                 (''workflows'', JArr [workflow_payload (example_workflow 1 ''ci''), JNull])]) \<and>
   \<not> well_formed_workflow JNull \<and>
   (\<exists>is. fetchWorkflows None (always damaged_workflows_response) (''acme'', ''app'') = Inl (ZodError is))"
proof -
  have r1: "always damaged_runs_response
              \<lparr>url = runs_url ''acme'' ''app'' 1, headers = api_headers None\<rparr> = Inr damaged_runs_response"
    by (simp add: always_def)
  have r2: "ok damaged_runs_response" by (simp add: ok_def damaged_runs_response_def)
  have r3: "body damaged_runs_response =
     Some (JObj [(''total_count'', JNum 2),
                 (''workflow_runs'', JArr [run_payload (example_run 1 ''success''), run_without_id])])"
    by (simp add: damaged_runs_response_def)
  have r4: "map_of [(''total_count'', JNum 2),
                 (''workflow_runs'', JArr [run_payload (example_run 1 ''success''), run_without_id])]
              ''workflow_runs'' = Some (JArr [run_payload (example_run 1 ''success''), run_without_id])"
    by simp
  have r5: "run_without_id \<in> set [run_payload (example_run 1 ''success''), run_without_id]" by simp
  have r6: "\<not> well_formed_run run_without_id" by (simp add: run_without_id_def)
  have w1: "always damaged_workflows_response
              \<lparr>url = workflows_url ''acme'' ''app'', headers = api_headers None\<rparr> = Inr damaged_workflows_response"
    by (simp add: always_def)
  have w2: "ok damaged_workflows_response" by (simp add: ok_def damaged_workflows_response_def)
  have w3: "body damaged_workflows_response =
     Some (JObj [(''total_count'', JNum 2),
                 (''workflows'', JArr [workflow_payload (example_workflow 1 ''ci''), JNull])])"
    by (simp add: damaged_workflows_response_def)
  have w4: "map_of [(''total_count'', JNum 2),
                 (''workflows'', JArr [workflow_payload (example_workflow 1 ''ci''), JNull])]
              ''workflows'' = Some (JArr [workflow_payload (example_workflow 1 ''ci''), JNull])"
    by simp
  have w5: "JNull \<in> set [workflow_payload (example_workflow 1 ''ci''), JNull]" by simp
  have w6: "\<not> well_formed_workflow JNull" by simp
  note f = malformed_record_fails_fetch
    [where fetch = "always damaged_runs_response" and owner = "''acme''" and repo = "''app''"
       and workflowId = 1 and token = None and resp = damaged_runs_response
       and x = run_without_id]
  note g = malformed_record_fails_fetch
    [where fetch = "always damaged_workflows_response" and owner = "''acme''" and repo = "''app''"
       and token = None and resp' = damaged_workflows_response and x' = JNull]
  from f [THEN conjunct1] r1 r2 r3 r4 r5 r6
  have 1: "\<exists>is. fetchWorkflowRuns None (always damaged_runs_response) (''acme'', ''app'', 1) = Inl (ZodError is)"
    by blast
  from g [THEN conjunct2] w1 w2 w3 w4 w5 w6
  have 2: "\<exists>is. fetchWorkflows None (always damaged_workflows_response) (''acme'', ''app'') = Inl (ZodError is)"
    by blast
  from r2 r3 r6 1 w2 w3 w6 2 show ?thesis by blast
qed

text \<open>
  Claim C7, as amended. The narrative and the report come from one generation, and the
  flow catches nothing: when the generation is rejected with an error, the flow is rejected
  with that error and returns no report.
\<close>

theorem generation_failure_rejects_flow:
  assumes "response (generateStream
             \<lparr>prompt = health_prompt owner repo,
              tools = (fetchWorkflows token fetch, fetchWorkflowRuns token fetch),
              temperature = 3 / 10\<rparr>) = Inl e"
  shows "snd (workflowHealthFlow token fetch generateStream (owner, repo)) = Inl e"
  using assms by (simp add: flow_result)

theorem generation_failure_rejects_flow_witness:
  "response (unavailable (Error ''Deadline exceeded'')
             \<lparr>prompt = health_prompt ''acme'' ''app'',
              tools = (fetchWorkflows None partial_repository, fetchWorkflowRuns None partial_repository),
              temperature = 3 / 10\<rparr>) = Inl (Error ''Deadline exceeded'') \<and>
   snd (workflowHealthFlow None partial_repository (unavailable (Error ''Deadline exceeded'')) (''acme'', ''app''))
     = Inl (Error ''Deadline exceeded'')"
proof -
  have h: "response (unavailable (Error ''Deadline exceeded'')
             \<lparr>prompt = health_prompt ''acme'' ''app'',
              tools = (fetchWorkflows None partial_repository, fetchWorkflowRuns None partial_repository),
              temperature = 3 / 10\<rparr>) = Inl (Error ''Deadline exceeded'')"
    by (simp add: unavailable_def)
  from h generation_failure_rejects_flow
    [where generateStream = "unavailable (Error ''Deadline exceeded'')" and owner = "''acme''"
       and repo = "''app''" and token = None and fetch = partial_repository
       and e = "Error ''Deadline exceeded''"]
  show ?thesis by simp
qed

text \<open>
  The claim as stated fails: a generation rejected because the model is overloaded
  aborts the request with that error.
\<close>

theorem generation_failure_counterexample:
  "workflowHealthFlow None ci_repository (unavailable (Error ''The model is overloaded'')) (''acme'', ''app'')
     = ([], Inl (Error ''The model is overloaded''))"
  by (simp add: flow_result unavailable_def)

text \<open>
  Claim C8, as amended. A failure fetching one workflow's runs is not isolated. When the
  listing has succeeded and the runs endpoint of a listed workflow answers with a status
  that is not 2xx, \<^verbatim>\<open>fetchWorkflowRuns\<close> throws; whatever generator is used, if it lets
  the exception of that tool call reject the generation, the flow forwards the chunks the
  generator streamed and is then rejected with that error. No report is returned.
\<close>

theorem run_fetch_failure_rejects_flow:
  assumes "fetchWorkflows token fetch (owner, repo) = Inr ws" and "w \<in> set ws"
    and "fetch \<lparr>url = runs_url owner repo (w_id w), headers = api_headers token\<rparr> = Inr resp"
    and "\<not> ok resp"
    and "\<forall>e. fetchWorkflowRuns token fetch (owner, repo, w_id w) = Inl e \<longrightarrow>
           response (generateStream
             \<lparr>prompt = health_prompt owner repo,
              tools = (fetchWorkflows token fetch, fetchWorkflowRuns token fetch),
              temperature = 3 / 10\<rparr>) = Inl e"
  shows "workflowHealthFlow token fetch generateStream (owner, repo) =
           (stream (generateStream
             \<lparr>prompt = health_prompt owner repo,
              tools = (fetchWorkflows token fetch, fetchWorkflowRuns token fetch),
              temperature = 3 / 10\<rparr>),
            Inl (Error (''Failed to fetch workflow runs from GitHub: '' @ statusText resp)))"
proof -
  from fetchWorkflowRuns_not_ok [where fetch = fetch, OF assms(3,4)] assms(5)
  have "response (generateStream
             \<lparr>prompt = health_prompt owner repo,
              tools = (fetchWorkflows token fetch, fetchWorkflowRuns token fetch),
              temperature = 3 / 10\<rparr>) = Inl (Error (''Failed to fetch workflow runs from GitHub: '' @ statusText resp))"
    by blast
  then show ?thesis by (simp add: flow_result)
qed

theorem run_fetch_failure_rejects_flow_witness:
  "fetchWorkflows None partial_repository (''acme'', ''app'') =
     Inr [example_workflow 1 ''build'', example_workflow 2 ''test'', example_workflow 3 ''deploy''] \<and>
   partial_repository
     \<lparr>url = runs_url ''acme'' ''app'' (w_id (example_workflow 2 ''test'')), headers = api_headers None\<rparr> =
     Inr (failed_response 500 ''Internal Server Error'') \<and>
   \<not> ok (failed_response 500 ''Internal Server Error'') \<and>
   workflowHealthFlow None partial_repository (rejected_after [''chunk 1'', ''chunk 2''] (Error ''Failed to fetch workflow runs from GitHub: Internal Server Error'')) (''acme'', ''app'') =
     ([''chunk 1'', ''chunk 2''], Inl (Error ''Failed to fetch workflow runs from GitHub: Internal Server Error''))"
proof -
  have m: "example_workflow 2 ''test'' \<in>
             set [example_workflow 1 ''build'', example_workflow 2 ''test'', example_workflow 3 ''deploy'']"
    by simp
  have r: "partial_repository
     \<lparr>url = runs_url ''acme'' ''app'' (w_id (example_workflow 2 ''test'')), headers = api_headers None\<rparr> =
     Inr (failed_response 500 ''Internal Server Error'')"
    by (simp add: partial_repository_def api_def example_workflow_def runs_url_1 runs_url_2
          workflows_url_acme)
  have o: "\<not> ok (failed_response 500 ''Internal Server Error'')"
    by (simp add: ok_def failed_response_def)
  have p: "\<forall>e. fetchWorkflowRuns None partial_repository (''acme'', ''app'', w_id (example_workflow 2 ''test'')) = Inl e \<longrightarrow>
           response (rejected_after [''chunk 1'', ''chunk 2''] (Error ''Failed to fetch workflow runs from GitHub: Internal Server Error'')
             \<lparr>prompt = health_prompt ''acme'' ''app'',
              tools = (fetchWorkflows None partial_repository, fetchWorkflowRuns None partial_repository),
              temperature = 3 / 10\<rparr>) = Inl e"
    by (simp add: example_workflow_def partial_test rejected_after_def)
  from run_fetch_failure_rejects_flow
    [where generateStream = "rejected_after [''chunk 1'', ''chunk 2''] (Error ''Failed to fetch workflow runs from GitHub: Internal Server Error'')"
       and fetch = partial_repository, OF partial_listing m r o p]
  have "workflowHealthFlow None partial_repository (rejected_after [''chunk 1'', ''chunk 2''] (Error ''Failed to fetch workflow runs from GitHub: Internal Server Error'')) (''acme'', ''app'') =
     ([''chunk 1'', ''chunk 2''], Inl (Error ''Failed to fetch workflow runs from GitHub: Internal Server Error''))"
    by (simp add: rejected_after_def failed_response_def)
  with partial_listing r o show ?thesis by blast
qed

text \<open>
  The claim as stated fails: three workflows are listed, the runs of the first and the
  third are fetched, the runs endpoint of the second answers 500; the generation is
  rejected with the error of that fetch after two chunks, and so is the request.
\<close>

theorem one_failure_aborts_report_counterexample:
  "fetchWorkflows None partial_repository (''acme'', ''app'') =
     Inr [example_workflow 1 ''build'', example_workflow 2 ''test'', example_workflow 3 ''deploy''] \<and>
   fetchWorkflowRuns None partial_repository (''acme'', ''app'', 1) = Inr [example_run 1 ''success''] \<and>
   fetchWorkflowRuns None partial_repository (''acme'', ''app'', 2) = Inl (Error ''Failed to fetch workflow runs from GitHub: Internal Server Error'') \<and>
   fetchWorkflowRuns None partial_repository (''acme'', ''app'', 3) = Inr [example_run 2 ''success''] \<and>
   snd (workflowHealthFlow None partial_repository (rejected_after [''chunk 1'', ''chunk 2''] (Error ''Failed to fetch workflow runs from GitHub: Internal Server Error'')) (''acme'', ''app'')) =
     Inl (Error ''Failed to fetch workflow runs from GitHub: Internal Server Error'')"
proof -
  have "snd (workflowHealthFlow None partial_repository (rejected_after [''chunk 1'', ''chunk 2''] (Error ''Failed to fetch workflow runs from GitHub: Internal Server Error'')) (''acme'', ''app'')) =
     Inl (Error ''Failed to fetch workflow runs from GitHub: Internal Server Error'')"
    by (simp add: flow_result rejected_after_def)
  with partial_listing partial_build partial_test partial_deploy show ?thesis by blast
qed

text \<open>
  Claim C9, as amended. \<^verbatim>\<open>fetchWorkflowRuns\<close> returns the runs in the order of the
  payload: the run at each position is the parse of the payload's record at that position.
  Nothing is sorted.
\<close>

theorem runs_keep_payload_order:
  assumes "fetchWorkflowRuns token fetch (owner, repo, workflowId) = Inr runs"
    and "fetch \<lparr>url = runs_url owner repo workflowId, headers = api_headers token\<rparr> = Inr resp"
    and "body resp = Some (JObj kvs)"
    and "map_of kvs ''workflow_runs'' = Some (JArr xs)"
  shows "map (parse workflowRunSchema) xs = map Inr runs"
proof -
  have o: "ok resp"
    using assms(1,2) by (auto simp: fetchWorkflowRuns_def split: if_splits)
  from fetchWorkflowRuns_ok [where fetch = fetch, OF assms(2) o assms(3)] assms(1)
  obtain parsed where p: "workflowRunsResponseSchema [] (Some (JObj kvs)) = Inr parsed"
    and r: "runs = workflow_runs parsed"
    by (auto split: sum.splits)
  from runs_schema_elements [OF p assms(4)] r
  have "map (\<lambda>x. workflowRunSchema [] (Some x)) xs = map Inr runs" by simp
  then show ?thesis by (auto simp: list_eq_iff_nth_eq parse_def)
qed

theorem runs_keep_payload_order_witness:
  "fetchWorkflowRuns None shuffled_repository (''acme'', ''app'', 1) = Inr shuffled_runs \<and>
   shuffled_repository \<lparr>url = runs_url ''acme'' ''app'' 1, headers = api_headers None\<rparr> =
     Inr (runs_response shuffled_runs) \<and>
   map (parse workflowRunSchema) (map run_payload shuffled_runs) = map Inr shuffled_runs"
proof -
  have f: "shuffled_repository \<lparr>url = runs_url ''acme'' ''app'' 1, headers = api_headers None\<rparr> =
     Inr (runs_response shuffled_runs)"
    by (simp add: shuffled_repository_def api_def example_workflow_def runs_url_1 workflows_url_acme)
  have b: "body (runs_response shuffled_runs) =
     Some (JObj [(''total_count'', JNum (int (length shuffled_runs))),
                 (''workflow_runs'', JArr (map run_payload shuffled_runs))])"
    by (simp add: runs_response_def)
  have m: "map_of [(''total_count'', JNum (int (length shuffled_runs))),
                 (''workflow_runs'', JArr (map run_payload shuffled_runs))] ''workflow_runs'' =
           Some (JArr (map run_payload shuffled_runs))"
    by simp
  from shuffled_history f runs_keep_payload_order [where fetch = shuffled_repository, OF shuffled_history f b m]
  show ?thesis by blast
qed

text \<open>
  The claim as stated fails: runs sent in the order of the 2nd, the 1st and the 3rd of
  January are returned in that order, which is neither ascending nor descending in
  creation time.
\<close>

theorem runs_not_sorted_counterexample:
  "fetchWorkflowRuns None shuffled_repository (''acme'', ''app'', 1) = Inr shuffled_runs \<and>
   map r_created_at shuffled_runs =
     [''2024-01-02T00:00:00Z'', ''2024-01-01T00:00:00Z'', ''2024-01-03T00:00:00Z''] \<and>
   \<not> sorted (map r_created_at shuffled_runs) \<and>
   \<not> sorted (rev (map r_created_at shuffled_runs))"
  by (simp add: shuffled_history shuffled_created)

text \<open>
  Claim C10, as amended. An input with two or more separators is split at every \<open>/\<close>,
  and only the first two segments, trimmed, are used: the outcome is that of the input cut
  after its second segment. When neither trimmed segment is empty the remote function is
  called once, with them as owner and repository, and the other segments are discarded;
  when one of them is empty the input is rejected without a call.
\<close>

theorem extra_segments_discarded:
  assumes "CHR ''/'' \<notin> set a" and "CHR ''/'' \<notin> set b"
  shows "mutationFn callable (a @ ''/'' @ b @ ''/'' @ rest) =
           (if trim a = [] \<or> trim b = []
            then ([], Inl (Error ''Please enter a valid repository in format: owner/repo''))
            else ([(trim a, trim b)], callable (trim a, trim b))) \<and>
         mutationFn callable (a @ ''/'' @ b @ ''/'' @ rest) = mutationFn callable (a @ ''/'' @ b)"
proof -
  from assms have long: "split_on CHR ''/'' (a @ ''/'' @ b @ ''/'' @ rest) = a # b # split_on CHR ''/'' rest"
    by (simp add: split_on_append)
  from assms have short: "split_on CHR ''/'' (a @ ''/'' @ b) = [a, b]"
    by (simp add: split_on_append split_on_no_sep)
  obtain z zs where "split_on CHR ''/'' rest = z # zs"
    using split_on_first by blast
  with long have long': "split_on CHR ''/'' (a @ ''/'' @ b @ ''/'' @ rest) = a # b # z # zs"
    by simp
  show ?thesis
    unfolding mutationFn_two_segments [OF long'] mutationFn_two_segments [OF short] by simp
qed

theorem extra_segments_discarded_witness:
  "CHR ''/'' \<notin> set ''a'' \<and> CHR ''/'' \<notin> set ''b'' \<and>
   mutationFn remote_report ''a/b/c'' = ([(''a'', ''b'')], remote_report (''a'', ''b'')) \<and>
   mutationFn remote_report ''a/b/c'' = mutationFn remote_report ''a/b'' \<and>
   mutationFn remote_report '' a / b /c'' = ([(''a'', ''b'')], remote_report (''a'', ''b''))"
proof -
  have a: "CHR ''/'' \<notin> set ''a''" and b: "CHR ''/'' \<notin> set ''b''" by simp_all
  have a': "CHR ''/'' \<notin> set '' a ''" and b': "CHR ''/'' \<notin> set '' b ''" by simp_all
  note f = extra_segments_discarded [OF a b, of remote_report "''c''"]
  note g = extra_segments_discarded [OF a' b', of remote_report "''c''"]
  from f [THEN conjunct1]
  have 1: "mutationFn remote_report ''a/b/c'' = ([(''a'', ''b'')], remote_report (''a'', ''b''))"
    by (simp add: trim_examples)
  from f [THEN conjunct2]
  have 2: "mutationFn remote_report ''a/b/c'' = mutationFn remote_report ''a/b''"
    by simp
  from g [THEN conjunct1]
  have 3: "mutationFn remote_report '' a / b /c'' = ([(''a'', ''b'')], remote_report (''a'', ''b''))"
    by (simp add: trim_examples)
  from a b 1 2 3 show ?thesis by blast
qed

text \<open>
  The claim as stated fails: with two or more separators the request is not always
  issued. An empty or blank first or second segment is rejected, and nothing is called.
\<close>

theorem empty_segment_rejected_counterexample:
  "mutationFn remote_report ''a//c'' = ([], Inl (Error ''Please enter a valid repository in format: owner/repo'')) \<and>
   mutationFn remote_report ''//'' = ([], Inl (Error ''Please enter a valid repository in format: owner/repo'')) \<and>
   mutationFn remote_report '' /b/c'' = ([], Inl (Error ''Please enter a valid repository in format: owner/repo''))"
  by (simp add: mutationFn_two_segments [OF split_examples(1)]
        mutationFn_two_segments [OF split_examples(2)]
        mutationFn_two_segments [OF split_examples(3)] trim_Nil trim_examples)

end
